theory Spec2Isabelle
  imports Main "HOL-Library.Word" "HOL-Library.Signed_Division"
begin

unbundle bit_operations_syntax

section \<open>Machine integers of the Go source\<close>

text \<open>
  Go's \<open>int64\<close> is a 64-bit two's-complement word: \<open>+\<close> wraps, comparisons are the
  signed ones (\<open>\<le>s\<close>, \<open><s\<close>), and \<open>/\<close> truncates towards zero. \<open>time.Duration\<close> is an
  \<open>int64\<close> counting nanoseconds.
\<close>

type_synonym int64 = "64 word"
type_synonym Duration = "64 word"

definition Microsecond :: Duration where
  "Microsecond = 1000"

definition Millisecond :: Duration where
  "Millisecond = 1000 * Microsecond"

definition Second :: Duration where
  "Second = 1000 * Millisecond"

text \<open>
  Go's \<open>a / b\<close> on \<open>int64\<close>: the quotient truncated towards zero, wrapped into 64 bits
  (the one overflowing case is the most negative value divided by \<open>-1\<close>). Go panics on
  a zero divisor; both uses below are guarded by a test for zero.
\<close>

definition int64_quo :: "int64 \<Rightarrow> int64 \<Rightarrow> int64" where
  "int64_quo a b = word_of_int (sint a sdiv sint b)"

section \<open>stats.go: the per-URL aggregate\<close>

text \<open>
  The struct \<open>URLStats\<close>. Its mutex \<open>mu\<close> is not a field of the model: every method
  holds it for its whole body, so each method is one atomic step on the other fields.
\<close>

record URLStats =
  URL :: string
  TotalRequests :: int64
  SuccessCount :: int64
  MinDuration :: Duration
  MaxDuration :: Duration
  TotalDuration :: Duration
  MinSize :: int64
  MaxSize :: int64
  TotalSize :: int64

text \<open>
  \<open>NewURLStats\<close>: the fields not named in the composite literal are zero.
  \<open>time.Duration(^uint64(0) >> 1)\<close> is a logical shift of the all-ones unsigned word;
  \<open>^int64(0) >> 1\<close> is an arithmetic shift of the signed word \<open>-1\<close>.
\<close>

definition unset_duration :: Duration where
  "unset_duration = drop_bit 1 (NOT 0)"

definition unset_size :: int64 where
  "unset_size = signed_drop_bit 1 (NOT 0)"

definition NewURLStats :: "string \<Rightarrow> URLStats" where
  "NewURLStats url =
     \<lparr>URL = url, TotalRequests = 0, SuccessCount = 0,
      MinDuration = unset_duration, MaxDuration = 0, TotalDuration = 0,
      MinSize = unset_size, MaxSize = 0, TotalSize = 0\<rparr>"

text \<open>\<open>Update\<close>: the assignments of the method body, in the order of the source.\<close>

definition Update :: "Duration \<Rightarrow> int64 \<Rightarrow> bool \<Rightarrow> URLStats \<Rightarrow> URLStats" where
  "Update duration bodySize success s0 =
     (let s1 = s0\<lparr>TotalRequests := TotalRequests s0 + 1\<rparr>;
          s2 = (if success then s1\<lparr>SuccessCount := SuccessCount s1 + 1\<rparr> else s1);
          s3 = (if TotalRequests s2 = 1 \<or> duration <s MinDuration s2
                then s2\<lparr>MinDuration := duration\<rparr> else s2);
          s4 = (if MaxDuration s3 <s duration then s3\<lparr>MaxDuration := duration\<rparr> else s3);
          s5 = s4\<lparr>TotalDuration := TotalDuration s4 + duration\<rparr>;
          s6 = (if TotalRequests s5 = 1 \<or> bodySize <s MinSize s5
                then s5\<lparr>MinSize := bodySize\<rparr> else s5);
          s7 = (if MaxSize s6 <s bodySize then s6\<lparr>MaxSize := bodySize\<rparr> else s6)
      in s7\<lparr>TotalSize := TotalSize s7 + bodySize\<rparr>)"

text \<open>\<open>GetSnapshot\<close> builds a new struct value from the nine data fields.\<close>

definition GetSnapshot :: "URLStats \<Rightarrow> URLStats" where
  "GetSnapshot s =
     \<lparr>URL = URL s, TotalRequests = TotalRequests s, SuccessCount = SuccessCount s,
      MinDuration = MinDuration s, MaxDuration = MaxDuration s,
      TotalDuration = TotalDuration s,
      MinSize = MinSize s, MaxSize = MaxSize s, TotalSize = TotalSize s\<rparr>"

definition AverageDuration :: "URLStats \<Rightarrow> Duration" where
  "AverageDuration s =
     (if TotalRequests s = 0 then 0 else int64_quo (TotalDuration s) (TotalRequests s))"

definition AverageSize :: "URLStats \<Rightarrow> int64" where
  "AverageSize s =
     (if TotalRequests s = 0 then 0 else int64_quo (TotalSize s) (TotalRequests s))"

text \<open>
  A sequence of \<open>Update\<close> calls on one aggregate, first call first (the loop
  \<open>for _, data := range testData { urlStats.Update(...) }\<close>).
\<close>

type_synonym sample = "Duration \<times> int64 \<times> bool"

fun updates :: "sample list \<Rightarrow> URLStats \<Rightarrow> URLStats" where
  "updates [] s = s"
| "updates ((d, b, ok) # us) s = updates us (Update d b ok s)"

text \<open>How many samples of a sequence are successes.\<close>

definition successes :: "sample list \<Rightarrow> nat" where
  "successes us = length (filter (\<lambda>(d, b, ok). ok) us)"

section \<open>Aggregates behind pointers\<close>

text \<open>
  The monitor keeps \<open>*URLStats\<close> pointers and the methods have pointer receivers, so
  the aggregates live in a store: a cell per allocated struct, addressed by its index.
  A pointer is \<open>Some a\<close> or \<open>nil\<close> (\<open>None\<close>); a call through \<open>nil\<close> panics, which is
  the result \<open>None\<close>. A struct-typed local variable is a cell of its own.
\<close>

type_synonym addr = nat
type_synonym store = "URLStats list"

definition alloc :: "URLStats \<Rightarrow> store \<Rightarrow> addr \<times> store" where
  "alloc v st = (length st, st @ [v])"

definition load :: "addr \<Rightarrow> store \<Rightarrow> URLStats option" where
  "load a st = (if a < length st then Some (st ! a) else None)"

definition call_Update ::
  "addr option \<Rightarrow> Duration \<Rightarrow> int64 \<Rightarrow> bool \<Rightarrow> store \<Rightarrow> store option" where
  "call_Update p duration bodySize success st =
     (case p of
        None \<Rightarrow> None
      | Some a \<Rightarrow>
          (case load a st of
             None \<Rightarrow> None
           | Some s \<Rightarrow> Some (st[a := Update duration bodySize success s])))"

definition call_GetSnapshot :: "addr option \<Rightarrow> store \<Rightarrow> URLStats option" where
  "call_GetSnapshot p st =
     (case p of
        None \<Rightarrow> None
      | Some a \<Rightarrow> (case load a st of None \<Rightarrow> None | Some s \<Rightarrow> Some (GetSnapshot s)))"

fun call_updates :: "addr option \<Rightarrow> sample list \<Rightarrow> store \<Rightarrow> store option" where
  "call_updates p [] st = Some st"
| "call_updates p ((d, b, ok) # us) st =
     (case call_Update p d b ok st of None \<Rightarrow> None | Some st' \<Rightarrow> call_updates p us st')"

section \<open>The monitor\<close>

subsection \<open>The channel of change notifications\<close>

text \<open>
  A \<open>chan struct{}\<close> carries no data, so its state is its capacity and the number of
  buffered elements (Go's \<open>cap\<close> and \<open>len\<close>). \<open>try_send\<close> is the statement
  \<open>select { case ch <- struct{}{}: default: }\<close>: the element goes straight to a receiver
  that is blocked on the channel, else into the buffer when there is room, else the
  \<open>default\<close> branch runs and nothing is sent. \<open>recv\<close> takes one buffered element;
  \<open>None\<close> when the buffer is empty and the receiver would block.
\<close>

record chan =
  chan_cap :: nat
  chan_len :: nat

definition make_chan :: "nat \<Rightarrow> chan" where
  "make_chan n = \<lparr>chan_cap = n, chan_len = 0\<rparr>"

definition try_send :: "bool \<Rightarrow> chan \<Rightarrow> chan" where
  "try_send receiver_waiting c =
     (if receiver_waiting then c
      else if chan_len c < chan_cap c then c\<lparr>chan_len := chan_len c + 1\<rparr>
      else c)"

definition recv :: "chan \<Rightarrow> chan option" where
  "recv c = (if 0 < chan_len c then Some (c\<lparr>chan_len := chan_len c - 1\<rparr>) else None)"

subsection \<open>The struct and its constructor\<close>

text \<open>
  \<open>Monitor\<close> as the version with a context declares it; the lock \<open>statsMu\<close> guards a
  map that is never written after the constructor and is left out. Of \<open>httpClient\<close>
  the model keeps the timeout.
\<close>

record Monitor =
  urls :: "string list"
  stats :: "string \<rightharpoonup> addr"
  httpClient_Timeout :: Duration
  updatedData :: chan

fun NewMonitor_stats ::
  "string list \<Rightarrow> (string \<rightharpoonup> addr) \<Rightarrow> store \<Rightarrow> (string \<rightharpoonup> addr) \<times> store" where
  "NewMonitor_stats [] m st = (m, st)"
| "NewMonitor_stats (url # rest) m st =
     (case alloc (NewURLStats url) st of (a, st') \<Rightarrow> NewMonitor_stats rest (m(url \<mapsto> a)) st')"

definition NewMonitor :: "string list \<Rightarrow> store \<Rightarrow> Monitor \<times> store" where
  "NewMonitor us st =
     (case NewMonitor_stats us Map.empty st of
        (m, st') \<Rightarrow>
          (\<lparr>urls = us, stats = m, httpClient_Timeout = 10 * Second,
            updatedData = make_chan 100\<rparr>, st'))"

subsection \<open>One poll\<close>

text \<open>
  What the network did is the input of a poll. \<open>fetch\<close> is the pair \<open>resp, err\<close> of
  \<open>httpClient.Do\<close> (or \<open>httpClient.Get\<close>), with the result of \<open>io.ReadAll(resp.Body)\<close>
  inside the response; \<open>StatusCode\<close> is a Go \<open>int\<close>. An \<open>attempt\<close> adds the measured
  \<open>time.Since(start)\<close>, and the case where \<open>http.NewRequestWithContext\<close> fails.
\<close>

datatype body_read = ReadError | ReadOK "8 word list"

record Response =
  StatusCode :: int64
  Body :: body_read

datatype fetch = FetchError | FetchResponse Response

datatype attempt = RequestError Duration | Sent Duration fetch

text \<open>
  \<open>updateStats\<close>: the lookup in the map gives \<open>nil\<close> for an unknown URL, and the call
  of \<open>Update\<close> then panics before anything is sent. The flag says whether the display
  loop is blocked in its \<open>select\<close> at the moment of the send.
\<close>

definition updateStats ::
  "Monitor \<Rightarrow> string \<Rightarrow> Duration \<Rightarrow> int64 \<Rightarrow> bool \<Rightarrow> bool \<Rightarrow> store
     \<Rightarrow> (Monitor \<times> store) option" where
  "updateStats m url duration bodySize success receiver_waiting st =
     (case call_Update (stats m url) duration bodySize success st of
        None \<Rightarrow> None
      | Some st' \<Rightarrow>
          Some (m\<lparr>updatedData := try_send receiver_waiting (updatedData m)\<rparr>, st'))"

text \<open>\<open>makeRequest\<close> of the version with a context.\<close>

definition makeRequest ::
  "Monitor \<Rightarrow> string \<Rightarrow> attempt \<Rightarrow> bool \<Rightarrow> store \<Rightarrow> (Monitor \<times> store) option" where
  "makeRequest m url att receiver_waiting st =
     (case att of
        RequestError d0 \<Rightarrow> updateStats m url d0 0 False receiver_waiting st
      | Sent duration FetchError \<Rightarrow> updateStats m url duration 0 False receiver_waiting st
      | Sent duration (FetchResponse resp) \<Rightarrow>
          (case Body resp of
             ReadError \<Rightarrow> updateStats m url duration 0 False receiver_waiting st
           | ReadOK body \<Rightarrow>
               updateStats m url duration (of_nat (length body))
                 (200 \<le>s StatusCode resp \<and> StatusCode resp <s 400) receiver_waiting st))"

text \<open>
  \<open>makeRequest\<close> of \<open>monitor.go\<close>, which calls \<open>httpClient.Get\<close> and has no separate
  step that builds the request. Its \<open>updateStats\<close> has the same text.
\<close>

definition makeRequest_get ::
  "Monitor \<Rightarrow> string \<Rightarrow> Duration \<Rightarrow> fetch \<Rightarrow> bool \<Rightarrow> store \<Rightarrow> (Monitor \<times> store) option" where
  "makeRequest_get m url duration f receiver_waiting st =
     (case f of
        FetchError \<Rightarrow> updateStats m url duration 0 False receiver_waiting st
      | FetchResponse resp \<Rightarrow>
          (case Body resp of
             ReadError \<Rightarrow> updateStats m url duration 0 False receiver_waiting st
           | ReadOK body \<Rightarrow>
               updateStats m url duration (of_nat (length body))
                 (200 \<le>s StatusCode resp \<and> StatusCode resp <s 400) receiver_waiting st))"

text \<open>
  The outcome of a poll in the words of the specification: success means a response
  was obtained, its body was read, and the status code is in the interval from 200 up
  to, not including, 400; the size is the length of the body, or 0 when there is none.
\<close>

definition spec_duration :: "attempt \<Rightarrow> Duration" where
  "spec_duration att = (case att of RequestError d \<Rightarrow> d | Sent d f \<Rightarrow> d)"

definition spec_body :: "attempt \<Rightarrow> 8 word list option" where
  "spec_body att =
     (case att of
        Sent d (FetchResponse resp) \<Rightarrow> (case Body resp of ReadOK body \<Rightarrow> Some body | _ \<Rightarrow> None)
      | _ \<Rightarrow> None)"

definition spec_status :: "attempt \<Rightarrow> int option" where
  "spec_status att =
     (case att of Sent d (FetchResponse resp) \<Rightarrow> Some (sint (StatusCode resp)) | _ \<Rightarrow> None)"

definition spec_success :: "attempt \<Rightarrow> bool" where
  "spec_success att =
     (spec_body att \<noteq> None
      \<and> (case spec_status att of None \<Rightarrow> False | Some c \<Rightarrow> 200 \<le> c \<and> c < 400))"

definition spec_size :: "attempt \<Rightarrow> int64" where
  "spec_size att = (case spec_body att of None \<Rightarrow> 0 | Some body \<Rightarrow> of_nat (length body))"

subsection \<open>Producers and the consumer of the change signal\<close>

text \<open>
  The steps that touch the channel: a poll of some worker (\<open>makeRequest\<close>, ending in the
  send of \<open>updateStats\<close>) and the receive of the display loop
  (\<open>case <-m.updatedData\<close>). A run is any interleaving of them; a step that panics or
  would block ends the run with \<open>None\<close>.
\<close>

datatype event = Poll string attempt bool | Redraw

fun step :: "event \<Rightarrow> Monitor \<times> store \<Rightarrow> (Monitor \<times> store) option" where
  "step (Poll url att receiver_waiting) (m, st) = makeRequest m url att receiver_waiting st"
| "step Redraw (m, st) =
     (case recv (updatedData m) of
        None \<Rightarrow> None
      | Some c \<Rightarrow> Some (m\<lparr>updatedData := c\<rparr>, st))"

fun run :: "event list \<Rightarrow> Monitor \<times> store \<Rightarrow> (Monitor \<times> store) option" where
  "run [] cfg = Some cfg"
| "run (e # es) cfg = (case step e cfg of None \<Rightarrow> None | Some cfg' \<Rightarrow> run es cfg')"

section \<open>main.go: validation of the arguments\<close>

subsection \<open>The library functions it calls\<close>

text \<open>
  A Go string is a sequence of bytes, here a \<open>string\<close> of 8-bit characters.
  \<open>strings.TrimSpace\<close> removes the leading and the trailing code points that
  \<open>unicode.IsSpace\<close> accepts. \<open>space_runes\<close> lists their UTF-8 encodings: the six
  ASCII ones, U+0085, U+00A0, U+1680, U+2000 to U+200A, U+2028, U+2029, U+202F, U+205F
  and U+3000.
\<close>

definition space_runes :: "string list" where
  "space_runes =
     [[CHR 0x09], [CHR 0x0A], [CHR 0x0B], [CHR 0x0C], [CHR 0x0D], [CHR 0x20],
      [CHR 0xC2, CHR 0x85], [CHR 0xC2, CHR 0xA0], [CHR 0xE1, CHR 0x9A, CHR 0x80],
      [CHR 0xE2, CHR 0x80, CHR 0x80], [CHR 0xE2, CHR 0x80, CHR 0x81],
      [CHR 0xE2, CHR 0x80, CHR 0x82], [CHR 0xE2, CHR 0x80, CHR 0x83],
      [CHR 0xE2, CHR 0x80, CHR 0x84], [CHR 0xE2, CHR 0x80, CHR 0x85],
      [CHR 0xE2, CHR 0x80, CHR 0x86], [CHR 0xE2, CHR 0x80, CHR 0x87],
      [CHR 0xE2, CHR 0x80, CHR 0x88], [CHR 0xE2, CHR 0x80, CHR 0x89],
      [CHR 0xE2, CHR 0x80, CHR 0x8A], [CHR 0xE2, CHR 0x80, CHR 0xA8],
      [CHR 0xE2, CHR 0x80, CHR 0xA9], [CHR 0xE2, CHR 0x80, CHR 0xAF],
      [CHR 0xE2, CHR 0x81, CHR 0x9F], [CHR 0xE3, CHR 0x80, CHR 0x80]]"

text \<open>The number of bytes of the space at the front of a string, 0 when there is none.\<close>

definition leading_rune :: "string list \<Rightarrow> string \<Rightarrow> nat" where
  "leading_rune rs s =
     (case List.find (\<lambda>r. take (length r) s = r) rs of None \<Rightarrow> 0 | Some r \<Rightarrow> length r)"

function trim_leading :: "string list \<Rightarrow> string \<Rightarrow> string" where
  "trim_leading rs s =
     (if leading_rune rs s = 0 \<or> s = [] then s
      else trim_leading rs (drop (leading_rune rs s) s))"
  by pat_completeness auto
termination
  by (relation "measure (\<lambda>(rs, s). length s)") auto

declare trim_leading.simps [simp del]

definition TrimSpace :: "string \<Rightarrow> string" where
  "TrimSpace s =
     rev (trim_leading (map rev space_runes) (rev (trim_leading space_runes s)))"

text \<open>
  \<open>url.Parse\<close> belongs to the Go library and is a parameter of the model: a function
  from the text to an error message or to the parsed URL, of which \<open>validateURLs\<close>
  reads the scheme and the host.
\<close>

record URL =
  Scheme :: string
  Host :: string

type_synonym url_parser = "string \<Rightarrow> string + URL"

subsection \<open>validateURLs\<close>

text \<open>
  The errors that \<open>validateURLs\<close> builds with \<open>fmt.Errorf\<close>, one constructor per format
  string, with the values the format is filled with.
\<close>

datatype error =
    NoURLs
  | EmptyArgument nat
  | InvalidURL string string
  | BadScheme string
  | NoHost string

text \<open>
  The loop over the arguments, with the index \<open>i\<close> and the slice \<open>validURLs\<close> built so
  far; the first failing check returns.
\<close>

fun validate_from :: "url_parser \<Rightarrow> nat \<Rightarrow> string list \<Rightarrow> string list \<Rightarrow> error + string list" where
  "validate_from parse i [] validURLs = Inr validURLs"
| "validate_from parse i (a # rest) validURLs =
     (let arg = TrimSpace a in
      if arg = [] then Inl (EmptyArgument (i + 1))
      else
        (case parse arg of
           Inl err \<Rightarrow> Inl (InvalidURL arg err)
         | Inr parsedURL \<Rightarrow>
             if Scheme parsedURL \<noteq> ''http'' \<and> Scheme parsedURL \<noteq> ''https''
             then Inl (BadScheme arg)
             else if Host parsedURL = [] then Inl (NoHost arg)
             else validate_from parse (i + 1) rest (validURLs @ [arg])))"

definition validateURLs :: "url_parser \<Rightarrow> string list \<Rightarrow> error + string list" where
  "validateURLs parse args =
     (if length args = 0 then Inl NoURLs else validate_from parse 0 args [])"

text \<open>
  What one argument is rejected for, if it is: the checks of the loop body on the
  argument at index \<open>i\<close>.
\<close>

definition entry_error :: "url_parser \<Rightarrow> nat \<Rightarrow> string \<Rightarrow> error option" where
  "entry_error parse i a =
     (if TrimSpace a = [] then Some (EmptyArgument (i + 1))
      else
        (case parse (TrimSpace a) of
           Inl err \<Rightarrow> Some (InvalidURL (TrimSpace a) err)
         | Inr u \<Rightarrow>
             if Scheme u \<noteq> ''http'' \<and> Scheme u \<noteq> ''https'' then Some (BadScheme (TrimSpace a))
             else if Host u = [] then Some (NoHost (TrimSpace a))
             else None))"

text \<open>
  An argument passes when it is not empty after trimming, the library parses it, the
  scheme is \<open>http\<close> or \<open>https\<close> and the host is not empty.
\<close>

definition acceptable :: "url_parser \<Rightarrow> string \<Rightarrow> bool" where
  "acceptable parse a =
     (TrimSpace a \<noteq> []
      \<and> (case parse (TrimSpace a) of
           Inl err \<Rightarrow> False
         | Inr u \<Rightarrow> (Scheme u = ''http'' \<or> Scheme u = ''https'') \<and> Host u \<noteq> []))"

text \<open>
  The values of \<open>url.Parse\<close> at the strings of the examples: the three URLs of the
  specification's example, and a URL with a space inside its host, which the library
  refuses. Other strings are not tabulated.
\<close>

definition example_parse :: url_parser where
  "example_parse s =
     (if s = ''https://example.com'' then Inr \<lparr>Scheme = ''https'', Host = ''example.com''\<rparr>
      else if s = ''ftp://example.com'' then Inr \<lparr>Scheme = ''ftp'', Host = ''example.com''\<rparr>
      else if s = ''http://'' then Inr \<lparr>Scheme = ''http'', Host = []\<rparr>
      else if s = ''http://exa mple.com''
        then Inl (''parse '' @ [CHR 0x22] @ ''http://exa mple.com'' @ [CHR 0x22]
                  @ '': invalid character '' @ [CHR 0x22, CHR 0x20, CHR 0x22]
                  @ '' in host name'')
      else Inl ''not tabulated'')"

section \<open>display.go: the cells of the table\<close>

text \<open>The verb \<open>%d\<close>: a signed 64-bit integer in decimal.\<close>

definition digit :: "nat \<Rightarrow> char" where
  "digit n = char_of (48 + n)"

function decimal_nat :: "nat \<Rightarrow> string" where
  "decimal_nat n = (if n < 10 then [digit n] else decimal_nat (n div 10) @ [digit (n mod 10)])"
  by pat_completeness auto
termination
  by (relation "measure id") auto

declare decimal_nat.simps [simp del]

definition decimal :: "int64 \<Rightarrow> string" where
  "decimal x =
     (if sint x < 0 then CHR ''-'' # decimal_nat (nat (- sint x))
      else decimal_nat (nat (sint x)))"

text \<open>
  \<open>Duration.Milliseconds\<close> is the integer quotient by \<open>1e6\<close>. The two branches that
  format a floating-point number are parameters: \<open>seconds_2f d\<close> stands for
  \<open>fmt.Sprintf("%.2f", d.Seconds())\<close> and \<open>ratio_1f sz k\<close> for
  \<open>fmt.Sprintf("%.1f", float64(size)/k)\<close>. The two sentinels are written in the source
  with the expressions of \<open>NewURLStats\<close>.
\<close>

definition Milliseconds :: "Duration \<Rightarrow> int64" where
  "Milliseconds d = int64_quo d 1000000"

definition formatDuration :: "(Duration \<Rightarrow> string) \<Rightarrow> Duration \<Rightarrow> string" where
  "formatDuration seconds_2f d =
     (if d = 0 \<or> d = drop_bit 1 (NOT 0) then ''-''
      else if Second \<le>s d then seconds_2f d @ ''s''
      else decimal (Milliseconds d) @ ''ms'')"

definition formatSize :: "(int64 \<Rightarrow> int64 \<Rightarrow> string) \<Rightarrow> int64 \<Rightarrow> string" where
  "formatSize ratio_1f sz =
     (if sz = 0 \<or> sz = signed_drop_bit 1 (NOT 0) then ''-''
      else if 1024 * 1024 \<le>s sz then ratio_1f sz (1024 * 1024) @ ''MB''
      else if 1024 \<le>s sz then ratio_1f sz 1024 @ ''KB''
      else decimal sz @ ''B'')"

section \<open>Cancellation and the request in flight\<close>

text \<open>
  \<open>main.go\<close> makes the context \<open>ctx\<close> with \<open>signal.NotifyContext\<close> and hands it through
  \<open>Start\<close> and \<open>monitorURL\<close> to \<open>makeRequest\<close>. For one request, what matters of a
  context is when it is cancelled, counted from the start of the request:
  \<open>SignalContext (Some c)\<close> is cancelled after \<open>c\<close>, \<open>SignalContext None\<close> not while the
  request runs, and \<open>context.Background()\<close> never.
\<close>

datatype go_context = Background | SignalContext "Duration option"

fun done_after :: "go_context \<Rightarrow> Duration option" where
  "done_after Background = None"
| "done_after (SignalContext c) = c"

text \<open>
  An \<open>http.Request\<close> with the three things the source gives it. The HTTP client is a
  parameter, like \<open>url.Parse\<close>: \<open>Do\<close> maps the request to the \<open>time.Since(start)\<close> that
  the caller then measures and to the pair \<open>resp, err\<close>. \<open>parse_url\<close> decides whether
  building the request fails, and \<open>build_time\<close> is \<open>time.Since(start)\<close> in that case.
\<close>

record Request =
  req_Method :: string
  req_URL :: string
  req_Context :: go_context

record world =
  parse_url :: url_parser
  build_time :: Duration
  Do :: "Request \<Rightarrow> Duration \<times> fetch"

text \<open>
  The first half of \<open>makeRequest\<close> in the version with a context:
  \<open>http.NewRequestWithContext(ctx, "GET", url, nil)\<close>, then \<open>m.httpClient.Do(req)\<close>.
\<close>

definition request_attempt :: "world \<Rightarrow> go_context \<Rightarrow> string \<Rightarrow> attempt" where
  "request_attempt w ctx url =
     (case parse_url w url of
        Inl err \<Rightarrow> RequestError (build_time w)
      | Inr u \<Rightarrow>
          (case Do w \<lparr>req_Method = ''GET'', req_URL = url, req_Context = ctx\<rparr> of
             (duration, f) \<Rightarrow> Sent duration f))"

definition makeRequest_ctx ::
  "world \<Rightarrow> Monitor \<Rightarrow> go_context \<Rightarrow> string \<Rightarrow> bool \<Rightarrow> store \<Rightarrow> (Monitor \<times> store) option" where
  "makeRequest_ctx w m ctx url receiver_waiting st =
     makeRequest m url (request_attempt w ctx url) receiver_waiting st"

text \<open>
  The first half of \<open>makeRequest\<close> in \<open>monitor.go\<close>: \<open>m.httpClient.Get(url)\<close>, which
  builds the request with \<open>context.Background()\<close> and returns the error of a request
  that cannot be built as its own. The shutdown channel of that version is not
  given to the client.
\<close>

definition makeRequest_shutdown ::
  "world \<Rightarrow> Monitor \<Rightarrow> string \<Rightarrow> bool \<Rightarrow> store \<Rightarrow> (Monitor \<times> store) option" where
  "makeRequest_shutdown w m url receiver_waiting st =
     (case parse_url w url of
        Inl err \<Rightarrow> makeRequest_get m url (build_time w) FetchError receiver_waiting st
      | Inr u \<Rightarrow>
          (case Do w \<lparr>req_Method = ''GET'', req_URL = url, req_Context = Background\<rparr> of
             (duration, f) \<Rightarrow> makeRequest_get m url duration f receiver_waiting st))"

text \<open>
  The client of \<open>net/http\<close>, as far as its documentation fixes it: the context of a
  request controls the whole lifetime of the request and its response, and the
  \<open>Timeout\<close> of the client bounds it too. \<open>server\<close> says after what time the endpoint has
  answered in full, and with what. The call ends with the answer when that comes
  before the context is cancelled and before the timeout, and with an error at the
  earlier of the two otherwise.
\<close>

definition net_http_Do ::
  "Duration \<Rightarrow> (string \<Rightarrow> Duration \<times> Response) \<Rightarrow> Request \<Rightarrow> Duration \<times> fetch" where
  "net_http_Do timeout server req =
     (case server (req_URL req) of
        (t, resp) \<Rightarrow>
          (let limit = (case done_after (req_Context req) of
                          None \<Rightarrow> timeout
                        | Some c \<Rightarrow> if c <s timeout then c else timeout)
           in if t <s limit then (t, FetchResponse resp) else (limit, FetchError)))"

text \<open>
  An endpoint that answers every request after three seconds with status 200 and a body
  of three bytes, polled by the client with the timeout of \<open>NewMonitor\<close>.
\<close>

definition slow_endpoint :: world where
  "slow_endpoint =
     \<lparr>parse_url = example_parse, build_time = 0,
      Do = net_http_Do (10 * Second)
             (\<lambda>url. (3 * Second, \<lparr>StatusCode = 200, Body = ReadOK [1, 2, 3]\<rparr>))\<rparr>"

section \<open>The worked example of the statistics\<close>

text \<open>
  Claim C1. On a fresh aggregate the four updates (100ms, 1000B, true),
  (200ms, 2000B, true), (300ms, 1500B, false), (150ms, 500B, true), in this order, give
  count 4, success count 3, minimum duration 100ms, maximum duration 300ms, average
  duration 187500 microseconds, minimum size 500, maximum size 2000 and average size 1250.
\<close>

theorem stats_example:
  "(let s = GetSnapshot
              (updates [(100 * Millisecond, 1000, True), (200 * Millisecond, 2000, True),
                        (300 * Millisecond, 1500, False), (150 * Millisecond, 500, True)]
                 (NewURLStats url))
    in TotalRequests s = 4 \<and> SuccessCount s = 3
       \<and> MinDuration s = 100 * Millisecond \<and> MaxDuration s = 300 * Millisecond
       \<and> AverageDuration s = 187500 * Microsecond
       \<and> MinSize s = 500 \<and> MaxSize s = 2000 \<and> AverageSize s = 1250)"
  by (simp add: GetSnapshot_def NewURLStats_def Update_def AverageDuration_def
      AverageSize_def int64_quo_def Millisecond_def Microsecond_def unset_duration_def
      unset_size_def word_sless_alt Let_def)


section \<open>Averages\<close>

lemma sdiv_pos_bounds:
  fixes a b :: int
  assumes "0 < b"
  shows "(0 \<le> a \<longrightarrow> 0 \<le> a sdiv b \<and> a sdiv b \<le> a)
       \<and> (a < 0 \<longrightarrow> a \<le> a sdiv b \<and> a sdiv b \<le> 0)"
proof (cases "0 \<le> a")
  case True
  then have "a sdiv b = a div b"
    using assms by (simp add: signed_divide_int_def sgn_if)
  moreover have "0 \<le> a div b" using True assms by (simp add: pos_imp_zdiv_nonneg_iff)
  moreover have "a div b \<le> a" using True assms zdiv_mono2 [of a 1 b] by simp
  ultimately show ?thesis using True by simp
next
  case False
  then have e: "a sdiv b = - ((- a) div b)"
    using assms by (simp add: signed_divide_int_def sgn_if)
  have "0 \<le> (- a) div b" using False assms by (simp add: pos_imp_zdiv_nonneg_iff)
  moreover have "(- a) div b \<le> - a" using False assms zdiv_mono2 [of "- a" 1 b] by simp
  ultimately show ?thesis using False e by simp
qed

text \<open>With a positive divisor the quotient of two 64-bit values needs no wrap-around.\<close>

lemma sint_int64_quo:
  assumes "0 <s b"
  shows "sint (int64_quo a b) = sint a sdiv sint b"
proof -
  have b: "0 < sint b" using assms by (simp add: word_sless_alt)
  have la: "- (2 ^ 63) \<le> sint a" using sint_ge [of a] by simp
  have ua: "sint a < 2 ^ 63" using sint_less [of a] by simp
  have "- (2 ^ 63) \<le> sint a sdiv sint b" "sint a sdiv sint b < 2 ^ 63"
    using la ua sdiv_pos_bounds [OF b, of "sint a"] by linarith+
  then show ?thesis
    by (simp add: int64_quo_def sint_sbintrunc' signed_take_bit_int_eq_self)
qed

text \<open>
  Claim C4. In every state of an aggregate, \<open>AverageDuration\<close> and \<open>AverageSize\<close> are 0
  when the count is 0, and when the count is positive they are the total duration and
  the total size divided by the count, as integers with the quotient truncated
  towards zero.
\<close>

theorem averages_are_quotients:
  "(TotalRequests s = 0 \<longrightarrow> AverageDuration s = 0 \<and> AverageSize s = 0)
   \<and> (0 <s TotalRequests s \<longrightarrow>
        sint (AverageDuration s) = sint (TotalDuration s) sdiv sint (TotalRequests s)
      \<and> sint (AverageSize s) = sint (TotalSize s) sdiv sint (TotalRequests s))"
proof -
  have "AverageDuration s = 0 \<and> AverageSize s = 0" if "TotalRequests s = 0"
    using that by (simp add: AverageDuration_def AverageSize_def)
  moreover have "sint (AverageDuration s) = sint (TotalDuration s) sdiv sint (TotalRequests s)
      \<and> sint (AverageSize s) = sint (TotalSize s) sdiv sint (TotalRequests s)"
    if pos: "0 <s TotalRequests s"
  proof -
    have "TotalRequests s \<noteq> 0" using pos by (auto simp: word_sless_alt)
    then show ?thesis
      by (simp add: AverageDuration_def AverageSize_def sint_int64_quo [OF pos])
  qed
  ultimately show ?thesis by blast
qed

theorem averages_are_quotients_witness:
  "(0 :: int64) <s 4
   \<and> sint (AverageDuration
        \<lparr>URL = ''http://example.com'', TotalRequests = 4, SuccessCount = 3,
         MinDuration = 100000000, MaxDuration = 300000000, TotalDuration = 750000000,
         MinSize = 500, MaxSize = 2000, TotalSize = 5000\<rparr>) = 187500000
   \<and> sint (AverageSize
        \<lparr>URL = ''http://example.com'', TotalRequests = 4, SuccessCount = 3,
         MinDuration = 100000000, MaxDuration = 300000000, TotalDuration = 750000000,
         MinSize = 500, MaxSize = 2000, TotalSize = 5000\<rparr>) = 1250
   \<and> AverageDuration (NewURLStats ''http://example.com'') = 0
   \<and> AverageSize (NewURLStats ''http://example.com'') = 0"
  using averages_are_quotients
    [of "\<lparr>URL = ''http://example.com'', TotalRequests = 4, SuccessCount = 3,
         MinDuration = 100000000, MaxDuration = 300000000, TotalDuration = 750000000,
         MinSize = 500, MaxSize = 2000, TotalSize = 5000\<rparr>"]
    averages_are_quotients [of "NewURLStats ''http://example.com''"]
  by (simp add: word_sless_alt NewURLStats_def)

section \<open>The counters of an aggregate\<close>

lemma TotalRequests_Update: "TotalRequests (Update d b ok s) = TotalRequests s + 1"
  by (simp add: Update_def Let_def)

lemma SuccessCount_Update:
  "SuccessCount (Update d b ok s) = SuccessCount s + (if ok then 1 else 0)"
  by (simp add: Update_def Let_def)

lemma MinDuration_Update:
  "MinDuration (Update d b ok s) =
     (if TotalRequests s + 1 = 1 \<or> d <s MinDuration s then d else MinDuration s)"
  by (simp add: Update_def Let_def)

lemma MaxDuration_Update:
  "MaxDuration (Update d b ok s) = (if MaxDuration s <s d then d else MaxDuration s)"
  by (simp add: Update_def Let_def)

lemma MinSize_Update:
  "MinSize (Update d b ok s) =
     (if TotalRequests s + 1 = 1 \<or> b <s MinSize s then b else MinSize s)"
  by (simp add: Update_def Let_def)

lemma MaxSize_Update:
  "MaxSize (Update d b ok s) = (if MaxSize s <s b then b else MaxSize s)"
  by (simp add: Update_def Let_def)

lemma updates_append: "updates (xs @ ys) s = updates ys (updates xs s)"
  by (induction xs arbitrary: s) auto

lemma TotalRequests_updates:
  "TotalRequests (updates us s) = TotalRequests s + of_nat (length us)"
  by (induction us arbitrary: s) (auto simp: TotalRequests_Update)

lemma SuccessCount_updates:
  "SuccessCount (updates us s) = SuccessCount s + of_nat (successes us)"
  by (induction us arbitrary: s) (auto simp: SuccessCount_Update successes_def)

text \<open>From a fresh aggregate both counters are the true counts modulo \<open>2 ^ 64\<close>.\<close>

lemma TotalRequests_fresh:
  "TotalRequests (updates us (NewURLStats u)) = of_nat (length us)"
  by (simp add: TotalRequests_updates NewURLStats_def)

lemma SuccessCount_fresh:
  "SuccessCount (updates us (NewURLStats u)) = of_nat (successes us)"
  by (simp add: SuccessCount_updates NewURLStats_def)

lemma sint_of_nat_small:
  "n < 2 ^ 63 \<Longrightarrow> sint (of_nat n :: int64) = int n"
  by (simp add: signed_of_nat signed_take_bit_int_eq_self)

lemma of_nat_int64_nonzero:
  "0 < n \<Longrightarrow> n < 2 ^ 64 \<Longrightarrow> (of_nat n :: int64) \<noteq> 0"
  by (auto simp: word_of_nat_eq_0_iff dest: dvd_imp_le)

text \<open>
  Claim C5, as stated: after every update of every sequence from the initial state,
  the success count is at most the count. The counters are \<open>int64\<close>: after one failure
  and \<open>2 ^ 63 - 1\<close> successes the count has wrapped to the most negative value and the
  success count is the largest one.
\<close>

theorem success_le_count_counterexample:
  "\<not> SuccessCount
        (updates ((0, 0, False) # replicate 9223372036854775807 (0, 0, True)) (NewURLStats ''''))
      \<le>s TotalRequests
        (updates ((0, 0, False) # replicate 9223372036854775807 (0, 0, True)) (NewURLStats ''''))"
  by (simp only: SuccessCount_fresh TotalRequests_fresh) (simp add: successes_def word_sle_eq)

text \<open>
  Claim C5, amended: for every sequence of fewer than \<open>2 ^ 63\<close> updates from the initial
  state, the success count is at most the count after every update (after the first
  \<open>n\<close> updates, for every \<open>n\<close> up to the length).
\<close>

theorem success_le_count:
  assumes "length us < 2 ^ 63" and "n \<le> length us"
  shows "SuccessCount (updates (take n us) (NewURLStats u))
         \<le>s TotalRequests (updates (take n us) (NewURLStats u))"
proof -
  have le: "successes (take n us) \<le> length (take n us)"
    unfolding successes_def by (rule length_filter_le)
  have lt: "length (take n us) < 2 ^ 63" using assms by simp
  have lt': "successes (take n us) < 2 ^ 63" using le lt by (rule le_less_trans)
  have "sint (of_nat (successes (take n us)) :: int64)
        \<le> sint (of_nat (length (take n us)) :: int64)"
    using le by (simp only: sint_of_nat_small [OF lt] sint_of_nat_small [OF lt'] of_nat_le_iff)
  then show ?thesis
    by (simp only: SuccessCount_fresh TotalRequests_fresh word_sle_eq)
qed

theorem success_le_count_witness:
  "length [(100 * Millisecond, 1000, True), (300 * Millisecond, 1500, False) :: sample] < 2 ^ 63
   \<and> (2 :: nat) \<le> length [(100 * Millisecond, 1000, True), (300 * Millisecond, 1500, False) :: sample]
   \<and> SuccessCount (updates (take 2 [(100 * Millisecond, 1000, True), (300 * Millisecond, 1500, False)])
        (NewURLStats ''http://example.com''))
     \<le>s TotalRequests (updates (take 2 [(100 * Millisecond, 1000, True), (300 * Millisecond, 1500, False)])
        (NewURLStats ''http://example.com''))"
  using success_le_count
    [of "[(100 * Millisecond, 1000, True), (300 * Millisecond, 1500, False)]" 2
        "''http://example.com''"]
  by simp

section \<open>Minimum and maximum\<close>

text \<open>Every update leaves its own sample between the minimum and the maximum.\<close>

lemma min_le_sample:
  "MinDuration (Update d b ok s) \<le>s d" "MinSize (Update d b ok s) \<le>s b"
  by (auto simp: MinDuration_Update MinSize_Update word_sle_eq word_sless_alt)

lemma sample_le_max:
  "d \<le>s MaxDuration (Update d b ok s)" "b \<le>s MaxSize (Update d b ok s)"
  by (auto simp: MaxDuration_Update MaxSize_Update word_sle_eq word_sless_alt)

lemma min_le_max_Update:
  "MinDuration (Update d b ok s) \<le>s MaxDuration (Update d b ok s)"
  "MinSize (Update d b ok s) \<le>s MaxSize (Update d b ok s)"
  using min_le_sample(1) [of d b ok s] sample_le_max(1) [of d b ok s]
    min_le_sample(2) [of d b ok s] sample_le_max(2) [of b d ok s]
  by (auto simp: word_sle_eq)

lemma max_mono_Update:
  "MaxDuration s \<le>s MaxDuration (Update d b ok s)" "MaxSize s \<le>s MaxSize (Update d b ok s)"
  by (auto simp: MaxDuration_Update MaxSize_Update word_sle_eq word_sless_alt)

lemma min_mono_Update:
  assumes "TotalRequests s \<noteq> 0"
  shows "MinDuration (Update d b ok s) \<le>s MinDuration s"
    and "MinSize (Update d b ok s) \<le>s MinSize s"
  using assms by (auto simp: MinDuration_Update MinSize_Update word_sle_eq word_sless_alt)

lemma MinDuration_replicate:
  "MinDuration s = d \<Longrightarrow> MinDuration (updates (replicate n (d, b, ok)) s) = d"
  by (induction n arbitrary: s) (auto simp: MinDuration_Update)

lemma MinDuration_replicate_fresh:
  assumes "0 < n"
  shows "MinDuration (updates (replicate n (d, b, ok)) (NewURLStats u)) = d"
proof -
  obtain k where n: "n = Suc k" using assms by (cases n) auto
  have "MinDuration (Update d b ok (NewURLStats u)) = d"
    by (simp add: MinDuration_Update NewURLStats_def)
  then show ?thesis unfolding n by (simp add: MinDuration_replicate)
qed

text \<open>
  Claim C6, as stated: in every sequence of updates with non-negative durations and
  sizes, no update after the first increases a minimum. The test \<open>TotalRequests == 1\<close>
  of \<open>Update\<close> is on a 64-bit count: after \<open>2 ^ 64\<close> updates of 5 the count has wrapped
  to 0, and the next update, of 7, sets the minimum duration to 7.
\<close>

theorem min_never_increases_counterexample:
  "\<not> MinDuration (updates (replicate 18446744073709551616 (5, 5, True) @ [(7, 7, True)])
                     (NewURLStats ''''))
      \<le>s MinDuration (updates (replicate 18446744073709551616 (5, 5, True)) (NewURLStats ''''))"
  by (simp add: updates_append MinDuration_Update TotalRequests_fresh
      MinDuration_replicate_fresh word_sle_eq)

text \<open>
  Claim C6, amended: for every sequence of updates from the initial state, with
  durations and sizes of any sign, after the first update and after every later one
  (after the first \<open>n\<close> updates, \<open>n\<close> at least 1) the minimum duration is at most the
  maximum duration and the minimum size at most the maximum size; the next update, when
  there is one, does not decrease a maximum, and it does not increase a minimum as long
  as fewer than \<open>2 ^ 64\<close> updates came before it.
\<close>

theorem min_le_max_preserved:
  assumes "1 \<le> n" and "n \<le> length us"
  shows "MinDuration (updates (take n us) (NewURLStats u))
           \<le>s MaxDuration (updates (take n us) (NewURLStats u))
       \<and> MinSize (updates (take n us) (NewURLStats u))
           \<le>s MaxSize (updates (take n us) (NewURLStats u))
       \<and> (n < length us \<longrightarrow>
            MaxDuration (updates (take n us) (NewURLStats u))
              \<le>s MaxDuration (updates (take (Suc n) us) (NewURLStats u))
          \<and> MaxSize (updates (take n us) (NewURLStats u))
              \<le>s MaxSize (updates (take (Suc n) us) (NewURLStats u)))
       \<and> (n < length us \<and> n < 2 ^ 64 \<longrightarrow>
            MinDuration (updates (take (Suc n) us) (NewURLStats u))
              \<le>s MinDuration (updates (take n us) (NewURLStats u))
          \<and> MinSize (updates (take (Suc n) us) (NewURLStats u))
              \<le>s MinSize (updates (take n us) (NewURLStats u)))"
proof -
  obtain k where k: "n = Suc k" using assms(1) by (cases n) auto
  have klt: "k < length us" using assms(2) k by simp
  obtain d b ok where x: "us ! k = (d, b, ok)" by (cases "us ! k") auto
  have tk: "take n us = take k us @ [(d, b, ok)]"
    using klt x k by (simp add: take_Suc_conv_app_nth)
  have inv: "MinDuration (updates (take n us) (NewURLStats u))
           \<le>s MaxDuration (updates (take n us) (NewURLStats u))
       \<and> MinSize (updates (take n us) (NewURLStats u))
           \<le>s MaxSize (updates (take n us) (NewURLStats u))"
    unfolding tk by (simp add: updates_append min_le_max_Update)
  have next_update: "\<exists>d' b' ok'. take (Suc n) us = take n us @ [(d', b', ok')]"
    if lt: "n < length us"
  proof -
    obtain d' b' ok' where y: "us ! n = (d', b', ok')" by (cases "us ! n") auto
    then show ?thesis using lt by (simp add: take_Suc_conv_app_nth)
  qed
  have max_mono: "MaxDuration (updates (take n us) (NewURLStats u))
              \<le>s MaxDuration (updates (take (Suc n) us) (NewURLStats u))
          \<and> MaxSize (updates (take n us) (NewURLStats u))
              \<le>s MaxSize (updates (take (Suc n) us) (NewURLStats u))" if lt: "n < length us"
  proof -
    obtain d' b' ok' where ts: "take (Suc n) us = take n us @ [(d', b', ok')]"
      using next_update [OF lt] by blast
    show ?thesis unfolding ts by (simp add: updates_append max_mono_Update)
  qed
  have min_mono: "MinDuration (updates (take (Suc n) us) (NewURLStats u))
              \<le>s MinDuration (updates (take n us) (NewURLStats u))
          \<and> MinSize (updates (take (Suc n) us) (NewURLStats u))
              \<le>s MinSize (updates (take n us) (NewURLStats u))"
    if lt: "n < length us" and small: "n < 2 ^ 64"
  proof -
    obtain d' b' ok' where ts: "take (Suc n) us = take n us @ [(d', b', ok')]"
      using next_update [OF lt] by blast
    have nz: "TotalRequests (updates (take n us) (NewURLStats u)) \<noteq> 0"
      using assms small by (simp add: TotalRequests_fresh of_nat_int64_nonzero)
    show ?thesis unfolding ts
      by (simp add: updates_append min_mono_Update [OF nz])
  qed
  show ?thesis using inv max_mono min_mono by blast
qed

theorem min_le_max_preserved_witness:
  "(1 :: nat) \<le> length [(100 * Millisecond, 1000, True), (50 * Millisecond, 2000, False) :: sample]
   \<and> (1 :: nat) < length [(100 * Millisecond, 1000, True), (50 * Millisecond, 2000, False) :: sample]
   \<and> (1 :: nat) < 2 ^ 64
   \<and> MinDuration (updates (take 1 [(100 * Millisecond, 1000, True), (50 * Millisecond, 2000, False)])
        (NewURLStats ''http://example.com''))
     \<le>s MaxDuration (updates (take 1 [(100 * Millisecond, 1000, True), (50 * Millisecond, 2000, False)])
        (NewURLStats ''http://example.com''))
   \<and> MinDuration (updates (take (Suc 1) [(100 * Millisecond, 1000, True), (50 * Millisecond, 2000, False)])
        (NewURLStats ''http://example.com''))
     \<le>s MinDuration (updates (take 1 [(100 * Millisecond, 1000, True), (50 * Millisecond, 2000, False)])
        (NewURLStats ''http://example.com''))
   \<and> MaxSize (updates (take 1 [(100 * Millisecond, 1000, True), (50 * Millisecond, 2000, False)])
        (NewURLStats ''http://example.com''))
     \<le>s MaxSize (updates (take (Suc 1) [(100 * Millisecond, 1000, True), (50 * Millisecond, 2000, False)])
        (NewURLStats ''http://example.com''))"
  using min_le_max_preserved
    [of 1 "[(100 * Millisecond, 1000, True), (50 * Millisecond, 2000, False)]"
        "''http://example.com''"]
  by simp

section \<open>Snapshots\<close>

lemma GetSnapshot_id: "GetSnapshot s = s"
  by (cases s) (simp add: GetSnapshot_def)

lemma call_updates_valid:
  "p < length st \<Longrightarrow> call_updates (Some p) us st = Some (st[p := updates us (st ! p)])"
proof (induction us arbitrary: st)
  case Nil
  then show ?case by simp
next
  case (Cons x us)
  obtain d b ok where x: "x = (d, b, ok)" by (cases x) auto
  show ?case using Cons.prems
    by (simp add: x call_Update_def load_def Cons.IH)
qed

text \<open>
  Claim C7. \<open>GetSnapshot\<close> returns a struct value; assigned to a variable it is a cell
  \<open>q\<close> of its own, holding every field of the aggregate as it was. Whatever updates
  are then made through the pointer \<open>p\<close> to the aggregate, the cell of the snapshot
  keeps its value, while the aggregate moves on: its count is the count of the snapshot
  plus the number of updates.
\<close>

theorem snapshot_is_independent:
  assumes "call_GetSnapshot (Some p) st = Some snap" and "alloc snap st = (q, st1)"
  shows "q \<noteq> p
       \<and> load p st = Some snap
       \<and> (\<exists>st2. call_updates (Some p) us st1 = Some st2
                \<and> load q st2 = Some snap
                \<and> load p st2 = Some (updates us snap)
                \<and> TotalRequests (updates us snap) = TotalRequests snap + of_nat (length us))"
proof -
  have p: "p < length st" and snap: "snap = st ! p"
    using assms(1) by (auto simp: call_GetSnapshot_def load_def GetSnapshot_id split: if_splits)
  have q: "q = length st" and st1: "st1 = st @ [snap]"
    using assms(2) by (auto simp: alloc_def)
  have "call_updates (Some p) us st1 = Some (st1[p := updates us (st1 ! p)])"
    using p st1 by (simp add: call_updates_valid)
  then show ?thesis using p q st1 snap
    by (simp add: load_def nth_append TotalRequests_updates)
qed

text \<open>
  The example of the claim: one update, a snapshot, a second update. The snapshot
  (cell 1) stays at count 1 and the aggregate (cell 0) shows count 2.
\<close>

theorem snapshot_is_independent_witness:
  "call_GetSnapshot (Some 0) [Update (100 * Millisecond) 1000 True (NewURLStats ''http://example.com'')]
     = Some (Update (100 * Millisecond) 1000 True (NewURLStats ''http://example.com''))
   \<and> alloc (Update (100 * Millisecond) 1000 True (NewURLStats ''http://example.com''))
        [Update (100 * Millisecond) 1000 True (NewURLStats ''http://example.com'')]
     = (1, [Update (100 * Millisecond) 1000 True (NewURLStats ''http://example.com''),
            Update (100 * Millisecond) 1000 True (NewURLStats ''http://example.com'')])
   \<and> (\<exists>st2. call_updates (Some 0) [(200 * Millisecond, 2000, False)]
               [Update (100 * Millisecond) 1000 True (NewURLStats ''http://example.com''),
                Update (100 * Millisecond) 1000 True (NewURLStats ''http://example.com'')]
             = Some st2
           \<and> map_option TotalRequests (load 1 st2) = Some 1
           \<and> map_option TotalRequests (load 0 st2) = Some 2)"
proof -
  have g: "call_GetSnapshot (Some 0)
             [Update (100 * Millisecond) 1000 True (NewURLStats ''http://example.com'')]
     = Some (Update (100 * Millisecond) 1000 True (NewURLStats ''http://example.com''))"
    by (simp add: call_GetSnapshot_def load_def GetSnapshot_id)
  have a: "alloc (Update (100 * Millisecond) 1000 True (NewURLStats ''http://example.com''))
        [Update (100 * Millisecond) 1000 True (NewURLStats ''http://example.com'')]
     = (1, [Update (100 * Millisecond) 1000 True (NewURLStats ''http://example.com''),
            Update (100 * Millisecond) 1000 True (NewURLStats ''http://example.com'')])"
    by (simp add: alloc_def)
  have c: "TotalRequests (Update (100 * Millisecond) 1000 True (NewURLStats ''http://example.com''))
           = 1"
    by (simp add: TotalRequests_Update NewURLStats_def)
  show ?thesis
    using snapshot_is_independent [OF g a, of "[(200 * Millisecond, 2000, False)]"] g a c
    by (auto simp: TotalRequests_Update)
qed

section \<open>Zero and the unset sentinels in the table\<close>

text \<open>
  The two sentinels as numbers: the largest \<open>int64\<close> for the duration, and \<open>-1\<close> for
  the size, since the shift of \<open>^int64(0)\<close> is arithmetic.
\<close>

lemma sentinel_values: "unset_duration = 9223372036854775807" "unset_size = - 1"
  by (simp_all add: unset_duration_def unset_size_def mask_eq_exp_minus_1)

text \<open>
  Claim C10. \<open>formatDuration\<close> gives the dash for 0 as for the sentinel of an unset
  minimum duration, and \<open>formatSize\<close> gives the dash for 0 as for the sentinel of an
  unset minimum size. So the minimum size 0 that a first, failed poll records (size 0,
  no success) is shown exactly as the minimum size of an aggregate without samples.
\<close>

theorem zero_renders_as_unset:
  "formatDuration seconds_2f 0 = ''-''
   \<and> formatDuration seconds_2f (MinDuration (NewURLStats u)) = ''-''
   \<and> formatSize ratio_1f 0 = ''-''
   \<and> formatSize ratio_1f (MinSize (NewURLStats u)) = ''-''
   \<and> MinSize (GetSnapshot (Update d 0 False (NewURLStats u))) = 0
   \<and> formatSize ratio_1f (MinSize (GetSnapshot (Update d 0 False (NewURLStats u))))
       = formatSize ratio_1f (MinSize (GetSnapshot (NewURLStats u)))"
  by (simp add: formatDuration_def formatSize_def NewURLStats_def unset_duration_def
      unset_size_def GetSnapshot_id MinSize_Update)

section \<open>The outcome of a poll\<close>

lemma load_update_same: "a < length st \<Longrightarrow> load a (st[a := v]) = Some v"
  by (simp add: load_def)

lemma updateStats_registered:
  assumes "stats m url = Some a" and "load a st = Some s"
  shows "updateStats m url d b ok rw st
         = Some (m\<lparr>updatedData := try_send rw (updatedData m)\<rparr>, st[a := Update d b ok s])"
  using assms by (simp add: updateStats_def call_Update_def)

lemma sint_200_400:
  "(200 \<le>s (c :: int64) \<and> c <s 400) \<longleftrightarrow> (200 \<le> sint c \<and> sint c < 400)"
  by (simp add: word_sle_eq word_sless_alt)

text \<open>
  Claim C2. Every poll of a registered target, in both versions of \<open>makeRequest\<close>,
  records in the aggregate of the target exactly one update whose success flag is true
  if and only if a response was obtained, its body was read without error and the
  status code is at least 200 and less than 400, and whose size is the length of the
  body, or 0 when no body was read. The status codes 299 and 300 count as success and
  400 as failure.
\<close>

theorem poll_outcome_recorded:
  assumes "stats m url = Some a" and "load a st = Some s"
  shows "(\<exists>m' st'. makeRequest m url att rw st = Some (m', st')
            \<and> load a st' = Some (Update (spec_duration att) (spec_size att) (spec_success att) s))
       \<and> (\<exists>m' st'. makeRequest_get m url d f rw st = Some (m', st')
            \<and> load a st' = Some (Update d (spec_size (Sent d f)) (spec_success (Sent d f)) s))
       \<and> (spec_body att = None \<longrightarrow> spec_size att = 0 \<and> \<not> spec_success att)
       \<and> spec_success (Sent d (FetchResponse \<lparr>StatusCode = 299, Body = ReadOK body\<rparr>))
       \<and> spec_success (Sent d (FetchResponse \<lparr>StatusCode = 300, Body = ReadOK body\<rparr>))
       \<and> \<not> spec_success (Sent d (FetchResponse \<lparr>StatusCode = 400, Body = ReadOK body\<rparr>))"
proof -
  have lt: "a < length st" using assms(2) by (simp add: load_def split: if_splits)
  have 1: "\<exists>m' st'. makeRequest m url att rw st = Some (m', st')
            \<and> load a st' = Some (Update (spec_duration att) (spec_size att) (spec_success att) s)"
    using lt
    by (simp add: makeRequest_def updateStats_registered [OF assms] load_update_same
        spec_duration_def spec_size_def spec_success_def spec_body_def spec_status_def
        sint_200_400
        split: attempt.splits fetch.splits body_read.splits)
  have 2: "\<exists>m' st'. makeRequest_get m url d f rw st = Some (m', st')
            \<and> load a st' = Some (Update d (spec_size (Sent d f)) (spec_success (Sent d f)) s)"
    using lt
    by (simp add: makeRequest_get_def updateStats_registered [OF assms] load_update_same
        spec_size_def spec_success_def spec_body_def spec_status_def sint_200_400
        split: fetch.splits body_read.splits)
  have 3: "spec_body att = None \<longrightarrow> spec_size att = 0 \<and> \<not> spec_success att"
    by (simp add: spec_size_def spec_success_def)
  have 4: "spec_success (Sent d (FetchResponse \<lparr>StatusCode = 299, Body = ReadOK body\<rparr>))"
    "spec_success (Sent d (FetchResponse \<lparr>StatusCode = 300, Body = ReadOK body\<rparr>))"
    "\<not> spec_success (Sent d (FetchResponse \<lparr>StatusCode = 400, Body = ReadOK body\<rparr>))"
    by (simp_all add: spec_success_def spec_body_def spec_status_def)
  show ?thesis using 1 2 3 4 by blast
qed

text \<open>
  A poll of the one target of a new monitor that is answered with status 404 and a body
  of three bytes: one request, no success, total size 3.
\<close>

theorem poll_outcome_recorded_witness:
  "stats (fst (NewMonitor [''http://example.com''] [])) ''http://example.com'' = Some 0
   \<and> load 0 (snd (NewMonitor [''http://example.com''] []))
       = Some (NewURLStats ''http://example.com'')
   \<and> (\<exists>m' st'.
         makeRequest (fst (NewMonitor [''http://example.com''] [])) ''http://example.com''
           (Sent (120 * Millisecond) (FetchResponse \<lparr>StatusCode = 404, Body = ReadOK [1, 2, 3]\<rparr>))
           False (snd (NewMonitor [''http://example.com''] []))
         = Some (m', st')
       \<and> map_option TotalRequests (load 0 st') = Some 1
       \<and> map_option SuccessCount (load 0 st') = Some 0
       \<and> map_option TotalSize (load 0 st') = Some 3)"
proof -
  let ?att = "Sent (120 * Millisecond) (FetchResponse \<lparr>StatusCode = 404, Body = ReadOK [1, 2, 3]\<rparr>)"
  have r: "stats (fst (NewMonitor [''http://example.com''] [])) ''http://example.com'' = Some 0"
    by (simp add: NewMonitor_def alloc_def)
  have l: "load 0 (snd (NewMonitor [''http://example.com''] []))
       = Some (NewURLStats ''http://example.com'')"
    by (simp add: NewMonitor_def alloc_def load_def)
  have o: "spec_size ?att = 3" "\<not> spec_success ?att"
    by (simp_all add: spec_size_def spec_success_def spec_body_def spec_status_def)
  obtain m' st' where
    m: "makeRequest (fst (NewMonitor [''http://example.com''] [])) ''http://example.com''
          ?att False (snd (NewMonitor [''http://example.com''] [])) = Some (m', st')"
    and s: "load 0 st' = Some (Update (spec_duration ?att) (spec_size ?att) (spec_success ?att)
                                 (NewURLStats ''http://example.com''))"
    using poll_outcome_recorded [OF r l, of ?att False] by blast
  have "map_option TotalRequests (load 0 st') = Some 1"
    "map_option SuccessCount (load 0 st') = Some 0"
    "map_option TotalSize (load 0 st') = Some 3"
    using o by (simp_all add: s Update_def Let_def NewURLStats_def)
  then show ?thesis using r l m by blast
qed

section \<open>The change signal\<close>

lemma NewMonitor_chan:
  "updatedData (fst (NewMonitor us st0)) = \<lparr>chan_cap = 100, chan_len = 0\<rparr>"
  by (simp add: NewMonitor_def make_chan_def split: prod.splits)

lemma updateStats_chan:
  "updateStats m url d b ok rw st = Some (m', st')
   \<Longrightarrow> updatedData m' = try_send rw (updatedData m)"
  by (auto simp: updateStats_def split: option.splits)

lemma makeRequest_chan:
  "makeRequest m url att rw st = Some (m', st')
   \<Longrightarrow> updatedData m' = try_send rw (updatedData m)"
  by (auto simp: makeRequest_def dest: updateStats_chan
      split: attempt.splits fetch.splits body_read.splits)

lemma try_send_bounded:
  "chan_len c \<le> chan_cap c
   \<Longrightarrow> chan_cap (try_send rw c) = chan_cap c \<and> chan_len (try_send rw c) \<le> chan_cap c"
  by (simp add: try_send_def)

lemma step_bounded:
  assumes "step e (m, st) = Some (m', st')"
    and "chan_len (updatedData m) \<le> chan_cap (updatedData m)"
  shows "chan_cap (updatedData m') = chan_cap (updatedData m)
       \<and> chan_len (updatedData m') \<le> chan_cap (updatedData m)"
proof (cases e)
  case (Poll url att rw)
  then have "updatedData m' = try_send rw (updatedData m)"
    using assms(1) by (simp add: makeRequest_chan)
  then show ?thesis using try_send_bounded [OF assms(2)] by simp
next
  case Redraw
  then show ?thesis using assms
    by (auto simp: recv_def split: if_splits)
qed

lemma run_bounded:
  assumes "run evs (m, st) = Some (m', st')"
    and "chan_len (updatedData m) \<le> chan_cap (updatedData m)"
  shows "chan_cap (updatedData m') = chan_cap (updatedData m)
       \<and> chan_len (updatedData m') \<le> chan_cap (updatedData m)"
  using assms
proof (induction evs arbitrary: m st)
  case Nil
  then show ?case by simp
next
  case (Cons e evs)
  obtain m1 st1 where s: "step e (m, st) = Some (m1, st1)"
    using Cons.prems(1) by (cases "step e (m, st)") auto
  have b: "chan_cap (updatedData m1) = chan_cap (updatedData m)
       \<and> chan_len (updatedData m1) \<le> chan_cap (updatedData m)"
    using step_bounded [OF s Cons.prems(2)] .
  have "run evs (m1, st1) = Some (m', st')" using Cons.prems(1) s by simp
  then show ?case using Cons.IH [of m1 st1] b by simp
qed

text \<open>
  Claim C3, as stated: the channel has a single slot, so at most one notification is
  pending. The constructor makes the channel with capacity 100: two polls while the
  display loop is busy leave two notifications in the buffer.
\<close>

theorem change_signal_counterexample:
  "(case run [Poll ''http://example.com'' (Sent Millisecond FetchError) False,
              Poll ''http://example.com'' (Sent Millisecond FetchError) False]
          (NewMonitor [''http://example.com''] [])
    of None \<Rightarrow> False
     | Some (m, st) \<Rightarrow> chan_cap (updatedData m) = 100 \<and> chan_len (updatedData m) = 2)"
  by (simp add: NewMonitor_def alloc_def make_chan_def makeRequest_def updateStats_def
      call_Update_def load_def try_send_def)

text \<open>
  Claim C3, amended: the channel that the constructor creates has a buffer of 100 slots
  and starts empty; after any interleaving of polls and of receives of the display
  loop the capacity is still 100 and at most 100 notifications are pending; and the
  send of \<open>updateStats\<close> with all 100 slots full leaves the channel as it is and
  returns.
\<close>

theorem change_signal_bounded:
  assumes "run evs (NewMonitor us st0) = Some (m, st)"
  shows "updatedData (fst (NewMonitor us st0)) = \<lparr>chan_cap = 100, chan_len = 0\<rparr>
       \<and> chan_cap (updatedData m) = 100
       \<and> chan_len (updatedData m) \<le> 100
       \<and> (chan_len (updatedData m) = 100 \<and> updateStats m url d b ok False st = Some (m', st')
            \<longrightarrow> updatedData m' = updatedData m)"
proof -
  obtain m0 st1 where n: "NewMonitor us st0 = (m0, st1)" by (cases "NewMonitor us st0") auto
  have c: "updatedData m0 = \<lparr>chan_cap = 100, chan_len = 0\<rparr>"
    using NewMonitor_chan [of us st0] n by simp
  have b: "chan_cap (updatedData m) = 100 \<and> chan_len (updatedData m) \<le> 100"
    using run_bounded [of evs m0 st1 m st] assms n c by simp
  have "updatedData m' = updatedData m"
    if "chan_len (updatedData m) = 100" "updateStats m url d b ok False st = Some (m', st')"
    using updateStats_chan [OF that(2)] that(1) b by (simp add: try_send_def)
  then show ?thesis using b c n by auto
qed

theorem change_signal_bounded_witness:
  "run [Poll ''http://example.com'' (Sent Millisecond FetchError) False, Redraw]
     (NewMonitor [''http://example.com''] [])
   = Some (fst (NewMonitor [''http://example.com''] []),
           [Update Millisecond 0 False (NewURLStats ''http://example.com'')])
   \<and> chan_cap (updatedData (fst (NewMonitor [''http://example.com''] []))) = 100
   \<and> chan_len (updatedData (fst (NewMonitor [''http://example.com''] []))) \<le> 100"
proof -
  have r: "run [Poll ''http://example.com'' (Sent Millisecond FetchError) False, Redraw]
     (NewMonitor [''http://example.com''] [])
   = Some (fst (NewMonitor [''http://example.com''] []),
           [Update Millisecond 0 False (NewURLStats ''http://example.com'')])"
    by (simp add: NewMonitor_def alloc_def make_chan_def makeRequest_def updateStats_def
      call_Update_def load_def try_send_def recv_def)
  show ?thesis using change_signal_bounded [OF r] r by simp
qed

section \<open>Validation of the arguments\<close>

lemma entry_error_None: "entry_error parse i a = None \<longleftrightarrow> acceptable parse a"
  by (auto simp: entry_error_def acceptable_def split: sum.splits)

lemma validate_from_step:
  "validate_from parse i (a # rest) acc =
     (case entry_error parse i a of
        Some e \<Rightarrow> Inl e
      | None \<Rightarrow> validate_from parse (i + 1) rest (acc @ [TrimSpace a]))"
  by (simp add: entry_error_def Let_def split: sum.splits)

lemma validate_from_Inr:
  "validate_from parse i args acc = Inr vs
   \<longleftrightarrow> (\<forall>a \<in> set args. acceptable parse a) \<and> vs = acc @ map TrimSpace args"
proof (induction args arbitrary: i acc)
  case Nil
  then show ?case by auto
next
  case (Cons a rest)
  show ?case
  proof (cases "entry_error parse i a")
    case None
    then show ?thesis
      using Cons.IH [of "i + 1" "acc @ [TrimSpace a]"]
      by (simp only: validate_from_step) (simp add: entry_error_None)
  next
    case (Some e)
    then have "\<not> acceptable parse a" using entry_error_None [of parse i a] by simp
    then show ?thesis using Some by (simp only: validate_from_step) simp
  qed
qed

lemma validate_from_first:
  assumes "k < length args" and "\<forall>j<k. acceptable parse (args ! j)"
    and "entry_error parse (i + k) (args ! k) = Some e"
  shows "validate_from parse i args acc = Inl e"
  using assms
proof (induction args arbitrary: i k acc)
  case Nil
  then show ?case by simp
next
  case (Cons a rest)
  show ?case
  proof (cases k)
    case 0
    then show ?thesis using Cons.prems by (simp only: validate_from_step) simp
  next
    case (Suc k')
    have a: "entry_error parse i a = None"
      using Cons.prems(2) Suc entry_error_None [of parse i a] by auto
    have "validate_from parse (i + 1) rest (acc @ [TrimSpace a]) = Inl e"
    proof (rule Cons.IH)
      show "k' < length rest" using Cons.prems(1) Suc by simp
      show "\<forall>j<k'. acceptable parse (rest ! j)" using Cons.prems(2) Suc by auto
      show "entry_error parse (i + 1 + k') (rest ! k') = Some e"
        using Cons.prems(3) Suc by simp
    qed
    then show ?thesis using a by (simp only: validate_from_step) simp
  qed
qed

lemma TrimSpace_examples:
  "TrimSpace ''  https://example.com  '' = ''https://example.com''"
  "TrimSpace ''https://example.com'' = ''https://example.com''"
  "TrimSpace ''ftp://example.com'' = ''ftp://example.com''"
  "TrimSpace ''http://'' = ''http://''"
  "TrimSpace [] = []"
  "TrimSpace ''http://exa mple.com'' = ''http://exa mple.com''"
  by code_simp+

text \<open>
  Claim C8, as stated: an argument list is rejected for being empty or for a first
  entry that is empty after trimming, has another scheme than http or https, or has an
  empty host, and is returned trimmed otherwise. The argument \<open>http://exa mple.com\<close> is
  not empty, and read as a URL its scheme is http and its host is not empty; the
  library does not parse it, and \<open>validateURLs\<close> rejects it with an error of a fifth
  kind.
\<close>

theorem validateURLs_counterexample:
  "TrimSpace ''http://exa mple.com'' = ''http://exa mple.com''
   \<and> validateURLs example_parse [''http://exa mple.com'']
     = Inl (InvalidURL ''http://exa mple.com''
         (''parse '' @ [CHR 0x22] @ ''http://exa mple.com'' @ [CHR 0x22]
           @ '': invalid character '' @ [CHR 0x22, CHR 0x20, CHR 0x22] @ '' in host name''))"
  by (simp add: validateURLs_def TrimSpace_examples example_parse_def)

text \<open>
  Claim C8, amended: whatever \<open>url.Parse\<close> computes, \<open>validateURLs\<close> rejects the empty
  argument list; it returns a list exactly when the argument list is not empty and
  every argument passes, and the list is then the arguments with the surrounding
  whitespace trimmed; and when the argument at index \<open>k\<close> is the first that does not
  pass, the result is the error of that argument and nothing is returned. An
  argument does not pass when it is empty after trimming, when the library fails to
  parse it, when its scheme is neither http nor https, or when its host is empty:
  \<open>entry_error\<close> gives a different kind of error for each of the four, and the empty
  list has a fifth.
\<close>

theorem validateURLs_characterised:
  "validateURLs parse [] = Inl NoURLs
   \<and> (validateURLs parse args = Inr vs
        \<longleftrightarrow> args \<noteq> [] \<and> (\<forall>a \<in> set args. acceptable parse a) \<and> vs = map TrimSpace args)
   \<and> (k < length args \<and> (\<forall>j<k. acceptable parse (args ! j))
        \<and> entry_error parse k (args ! k) = Some e
      \<longrightarrow> validateURLs parse args = Inl e)
   \<and> (acceptable parse a \<longleftrightarrow> entry_error parse k a = None)"
proof -
  have 1: "validateURLs parse [] = Inl NoURLs" by (simp add: validateURLs_def)
  have 2: "validateURLs parse args = Inr vs
        \<longleftrightarrow> args \<noteq> [] \<and> (\<forall>a \<in> set args. acceptable parse a) \<and> vs = map TrimSpace args"
    using validate_from_Inr [of parse 0 args "[]" vs] by (auto simp: validateURLs_def)
  have 3: "validateURLs parse args = Inl e"
    if "k < length args" "\<forall>j<k. acceptable parse (args ! j)"
      "entry_error parse k (args ! k) = Some e"
    using validate_from_first [of k args parse 0 e "[]"] that
    by (auto simp: validateURLs_def)
  show ?thesis using 1 2 3 entry_error_None [of parse k a] by blast
qed

text \<open>
  The examples of the claim, with the values of \<open>url.Parse\<close> at these strings: the
  scheme ftp, the missing host and the empty string are rejected, each with its own
  kind of error, also behind an entry that passes; \<open>https://example.com\<close> is accepted,
  with or without whitespace around it, and returned trimmed.
\<close>

theorem validateURLs_characterised_witness:
  "validateURLs example_parse [''ftp://example.com''] = Inl (BadScheme ''ftp://example.com'')
   \<and> validateURLs example_parse [''http://''] = Inl (NoHost ''http://'')
   \<and> validateURLs example_parse [[]] = Inl (EmptyArgument 1)
   \<and> validateURLs example_parse [''https://example.com'', ''http://''] = Inl (NoHost ''http://'')
   \<and> validateURLs example_parse [''https://example.com''] = Inr [''https://example.com'']
   \<and> validateURLs example_parse [''  https://example.com  ''] = Inr [''https://example.com'']"
proof -
  have ok: "acceptable example_parse ''https://example.com''"
    "acceptable example_parse ''  https://example.com  ''"
    by (simp_all add: acceptable_def TrimSpace_examples example_parse_def)
  have bad:
    "entry_error example_parse 0 ''ftp://example.com'' = Some (BadScheme ''ftp://example.com'')"
    "entry_error example_parse 0 ''http://'' = Some (NoHost ''http://'')"
    "entry_error example_parse 1 ''http://'' = Some (NoHost ''http://'')"
    "entry_error example_parse 0 [] = Some (EmptyArgument 1)"
    by (simp_all add: entry_error_def TrimSpace_examples example_parse_def)
  have 1: "validateURLs example_parse [''ftp://example.com'']
           = Inl (BadScheme ''ftp://example.com'')"
    using validateURLs_characterised
      [of example_parse "[''ftp://example.com'']" "[]" 0 "BadScheme ''ftp://example.com''"] bad
    by simp
  have 2: "validateURLs example_parse [''http://''] = Inl (NoHost ''http://'')"
    using validateURLs_characterised
      [of example_parse "[''http://'']" "[]" 0 "NoHost ''http://''"] bad
    by simp
  have 3: "validateURLs example_parse [[]] = Inl (EmptyArgument 1)"
    using validateURLs_characterised [of example_parse "[[]]" "[]" 0 "EmptyArgument 1"] bad
    by simp
  have 4: "validateURLs example_parse [''https://example.com'', ''http://'']
           = Inl (NoHost ''http://'')"
    using validateURLs_characterised
      [of example_parse "[''https://example.com'', ''http://'']" "[]" 1 "NoHost ''http://''"]
      bad ok
    by simp
  have 5: "validateURLs example_parse [''https://example.com''] = Inr [''https://example.com'']"
    using validateURLs_characterised
      [of example_parse "[''https://example.com'']" "[''https://example.com'']"] ok
    by (simp add: TrimSpace_examples)
  have 6: "validateURLs example_parse [''  https://example.com  '']
           = Inr [''https://example.com'']"
    using validateURLs_characterised
      [of example_parse "[''  https://example.com  '']" "[''https://example.com'']"] ok
    by (simp add: TrimSpace_examples)
  show ?thesis using 1 2 3 4 5 6 by simp
qed


section \<open>Cancellation while a request is in flight\<close>

lemma fresh_monitor:
  "NewMonitor [''https://example.com''] []
   = (\<lparr>urls = [''https://example.com''], stats = [''https://example.com'' \<mapsto> 0],
       httpClient_Timeout = 10 * Second, updatedData = make_chan 100\<rparr>,
      [NewURLStats ''https://example.com''])"
  by (simp add: NewMonitor_def alloc_def)

text \<open>
  Claim C9: cancellation never aborts a request in flight; the worker finishes that
  request, subject only to the timeout of the request, and its outcome is recorded.
  The version of \<open>makeRequest\<close> that \<open>main.go\<close> calls builds the request from the
  cancellation context, so the client ends the call when the signal comes. With an
  endpoint that answers after three seconds and the signal 200 milliseconds after the
  start of the request, the aggregate records a failure of 200 milliseconds with size
  0. Without the signal the same poll records the success after three seconds with
  the three bytes of the body, and so does \<open>makeRequest\<close> of \<open>monitor.go\<close>, whose
  request has the background context, whenever the shutdown comes. In all three cases
  an outcome is recorded.
\<close>

theorem cancellation_aborts_request_in_flight:
  "(case NewMonitor [''https://example.com''] [] of
      (m, st) \<Rightarrow>
        map_option (load 0 \<circ> snd)
          (makeRequest_ctx slow_endpoint m (SignalContext (Some (200 * Millisecond)))
             ''https://example.com'' False st)
        = Some (Some (Update (200 * Millisecond) 0 False (NewURLStats ''https://example.com'')))
      \<and> map_option (load 0 \<circ> snd)
          (makeRequest_ctx slow_endpoint m (SignalContext None)
             ''https://example.com'' False st)
        = Some (Some (Update (3 * Second) 3 True (NewURLStats ''https://example.com'')))
      \<and> map_option (load 0 \<circ> snd)
          (makeRequest_shutdown slow_endpoint m ''https://example.com'' False st)
        = Some (Some (Update (3 * Second) 3 True (NewURLStats ''https://example.com''))))"
  by (simp add: fresh_monitor makeRequest_ctx_def makeRequest_shutdown_def request_attempt_def
      slow_endpoint_def example_parse_def net_http_Do_def makeRequest_def makeRequest_get_def
      updateStats_def call_Update_def load_def Second_def Millisecond_def Microsecond_def
      word_sless_alt word_sle_eq)
end
